theory Spec2Isabelle
  imports Main "HOL-Library.Signed_Division"
begin

section \<open>Durations, configuration and the transport templates (proxy.NewProxy)\<close>

text \<open>
  \<^verbatim>\<open>time.Duration\<close> is a count of nanoseconds. The constants below are the ones
  \<^verbatim>\<open>NewProxy\<close> multiplies with (\<^verbatim>\<open>90 * time.Second\<close>, \<^verbatim>\<open>1 * time.Second\<close>).
\<close>

type_synonym Duration = int

definition Millisecond :: Duration where
  "Millisecond = 1000000"

definition Second :: Duration where
  "Second = 1000 * Millisecond"

text \<open>
  \<^verbatim>\<open>*tls.Config\<close> is opaque to the proxy package: it is handed to \<^verbatim>\<open>NewProxy\<close> and
  stored in the templates unchanged. A nil pointer is \<open>None\<close>.
\<close>

datatype TLSConfig = TLSConfig (ServerName: string)

text \<open>
  The fields of \<^verbatim>\<open>config.Config\<close> that \<^verbatim>\<open>proxy.go\<close> reads when it builds the
  round-tripper factory and when it serves a request.
\<close>

record Config =
  EndpointDialTimeout :: Duration
  EndpointKeepAliveProbeInterval :: Duration
  DisableKeepAlives :: bool
  MaxIdleConns :: int
  MaxIdleConnsPerHost :: int
  TLSHandshakeTimeout :: Duration
  SendHttpStartStopClientEvent :: bool
  EnableHTTP1ConcurrentReadWrite :: bool

record Dialer =
  Timeout :: Duration
  KeepAlive :: Duration

text \<open>
  \<^verbatim>\<open>http.Transport\<close>, with the fields the two struct literals of \<^verbatim>\<open>NewProxy\<close> mention.
  \<open>DialContext\<close> is the bound method \<^verbatim>\<open>dialer.DialContext\<close>, modelled by the dialer it is
  bound to. A field that a struct literal leaves out has Go's zero value: \<open>0\<close> for a
  duration (for \<open>TLSHandshakeTimeout\<close> zero means no timeout).
\<close>

record Transport =
  DialContext :: Dialer
  DisableKeepAlives :: bool
  MaxIdleConns :: int
  IdleConnTimeout :: Duration
  MaxIdleConnsPerHost :: int
  DisableCompression :: bool
  TLSClientConfig :: "TLSConfig option"
  TLSHandshakeTimeout :: Duration
  ExpectContinueTimeout :: Duration

record FactoryImpl =
  BackendTemplate :: Transport
  RouteServiceTemplate :: Transport
  IsInstrumented :: bool

definition NewProxy_dialer :: "Config \<Rightarrow> Dialer" where
  "NewProxy_dialer cfg =
     \<lparr>Timeout = EndpointDialTimeout cfg,
      KeepAlive = EndpointKeepAliveProbeInterval cfg\<rparr>"

text \<open>
  The \<^verbatim>\<open>roundTripperFactory\<close> of \<^verbatim>\<open>NewProxy\<close> (proxy.go, lines 86 to 109), field by
  field. The route-service literal has no \<^verbatim>\<open>TLSHandshakeTimeout\<close> line, so that field
  is the zero duration there.
\<close>

definition NewProxy_roundTripperFactory ::
  "Config \<Rightarrow> TLSConfig option \<Rightarrow> TLSConfig option \<Rightarrow> FactoryImpl" where
  "NewProxy_roundTripperFactory cfg backendTLSConfig routeServiceTLSConfig =
     \<lparr>BackendTemplate =
        \<lparr>DialContext = NewProxy_dialer cfg,
         DisableKeepAlives = Config.DisableKeepAlives cfg,
         MaxIdleConns = Config.MaxIdleConns cfg,
         IdleConnTimeout = 90 * Second,
         MaxIdleConnsPerHost = Config.MaxIdleConnsPerHost cfg,
         DisableCompression = True,
         TLSClientConfig = backendTLSConfig,
         TLSHandshakeTimeout = Config.TLSHandshakeTimeout cfg,
         ExpectContinueTimeout = 1 * Second\<rparr>,
      RouteServiceTemplate =
        \<lparr>DialContext = NewProxy_dialer cfg,
         DisableKeepAlives = Config.DisableKeepAlives cfg,
         MaxIdleConns = Config.MaxIdleConns cfg,
         IdleConnTimeout = 90 * Second,
         MaxIdleConnsPerHost = Config.MaxIdleConnsPerHost cfg,
         DisableCompression = True,
         TLSClientConfig = routeServiceTLSConfig,
         TLSHandshakeTimeout = 0,
         ExpectContinueTimeout = 1 * Second\<rparr>,
      IsInstrumented = SendHttpStartStopClientEvent cfg\<rparr>"

text \<open>A configuration with a ten-second TLS handshake timeout, used to run the definitions.\<close>

definition example_config :: Config where
  "example_config =
     \<lparr>EndpointDialTimeout = 5 * Second,
      EndpointKeepAliveProbeInterval = 1 * Second,
      Config.DisableKeepAlives = False,
      Config.MaxIdleConns = 100,
      Config.MaxIdleConnsPerHost = 2,
      Config.TLSHandshakeTimeout = 10 * Second,
      SendHttpStartStopClientEvent = False,
      EnableHTTP1ConcurrentReadWrite = True\<rparr>"

section \<open>Strings (package strings)\<close>

text \<open>
  A Go string is a sequence of bytes, and so is a \<open>string\<close> here. \<^verbatim>\<open>strings.Split\<close> and
  \<^verbatim>\<open>strings.Cut\<close> are modelled for a separator of one byte, which is what every call
  below passes (\<^verbatim>\<open>"/"\<close>, \<^verbatim>\<open>"&"\<close>, \<^verbatim>\<open>"="\<close>). \<^verbatim>\<open>Split\<close> returns the pieces between the
  separators, one more than there are separators, so the empty string gives one empty
  piece. \<^verbatim>\<open>Cut\<close> returns the text before and after the first separator (all of the string
  and the empty string when there is none).
\<close>

definition HasPrefix :: "string \<Rightarrow> string \<Rightarrow> bool" where
  "HasPrefix s pre = (take (length pre) s = pre)"

definition TrimSuffix :: "string \<Rightarrow> string \<Rightarrow> string" where
  "TrimSuffix s suf =
     (if length suf \<le> length s \<and> drop (length s - length suf) s = suf
      then take (length s - length suf) s else s)"

fun Split :: "string \<Rightarrow> char \<Rightarrow> string list" where
  "Split [] sep = [[]]"
| "Split (c # cs) sep =
     (if c = sep then [] # Split cs sep
      else (case Split cs sep of
              [] \<Rightarrow> [[c]]
            | part # parts \<Rightarrow> (c # part) # parts))"

definition Cut :: "string \<Rightarrow> char \<Rightarrow> string \<times> string" where
  "Cut s sep = (takeWhile (\<lambda>c. c \<noteq> sep) s, drop 1 (dropWhile (\<lambda>c. c \<noteq> sep) s))"

section \<open>Escaping and query strings (package net/url)\<close>

text \<open>
  \<^verbatim>\<open>url.PathEscape\<close> and \<^verbatim>\<open>url.QueryEscape\<close> escape byte by byte: \<^verbatim>\<open>shouldEscape\<close>
  decides per byte and mode, an escaped byte is written as \<^verbatim>\<open>%\<close> and two upper-case
  hexadecimal digits, and in a query component a space is written as \<^verbatim>\<open>+\<close>. Letters,
  digits and \<^verbatim>\<open>-_.~\<close> are never escaped; of the reserved bytes a path segment escapes
  \<^verbatim>\<open>/ ; , ?\<close> and a query component escapes all; every other byte is escaped.
\<close>

datatype encoding = encodePathSegment | encodeQueryComponent

definition isAlnum :: "char \<Rightarrow> bool" where
  "isAlnum c =
     (let n = (of_char c :: nat)
      in (97 \<le> n \<and> n \<le> 122) \<or> (65 \<le> n \<and> n \<le> 90) \<or> (48 \<le> n \<and> n \<le> 57))"

definition shouldEscape :: "char \<Rightarrow> encoding \<Rightarrow> bool" where
  "shouldEscape c mode =
     (if isAlnum c then False
      else if c \<in> set ''-_.~'' then False
      else if c \<in> set ''$&+,/:;=?@'' then
        (case mode of
           encodePathSegment \<Rightarrow> c = CHR ''/'' \<or> c = CHR '';'' \<or> c = CHR '','' \<or> c = CHR ''?''
         | encodeQueryComponent \<Rightarrow> True)
      else True)"

definition upperhex :: string where
  "upperhex = ''0123456789ABCDEF''"

definition escapeByte :: "char \<Rightarrow> string" where
  "escapeByte c =
     [CHR ''%'', upperhex ! (of_char c div 16), upperhex ! (of_char c mod 16)]"

definition escape :: "string \<Rightarrow> encoding \<Rightarrow> string" where
  "escape s mode =
     concat (map (\<lambda>c. if shouldEscape c mode
                       then (if c = CHR '' '' \<and> mode = encodeQueryComponent then ''+''
                             else escapeByte c)
                       else [c]) s)"

definition PathEscape :: "string \<Rightarrow> string" where
  "PathEscape s = escape s encodePathSegment"

definition QueryEscape :: "string \<Rightarrow> string" where
  "QueryEscape s = escape s encodeQueryComponent"

definition ishex :: "char \<Rightarrow> bool" where
  "ishex c =
     (let n = (of_char c :: nat)
      in (48 \<le> n \<and> n \<le> 57) \<or> (97 \<le> n \<and> n \<le> 102) \<or> (65 \<le> n \<and> n \<le> 70))"

definition unhex :: "char \<Rightarrow> nat" where
  "unhex c =
     (let n = (of_char c :: nat)
      in if 48 \<le> n \<and> n \<le> 57 then n - 48
         else if 97 \<le> n \<and> n \<le> 102 then n - 97 + 10
         else if 65 \<le> n \<and> n \<le> 70 then n - 65 + 10
         else 0)"

text \<open>
  \<^verbatim>\<open>url.QueryUnescape\<close> fails (\<open>None\<close>) on a \<^verbatim>\<open>%\<close> that is not followed by two
  hexadecimal digits. \<^verbatim>\<open>url.Values\<close> is a \<^verbatim>\<open>map[string][]string\<close>; the model keeps one
  entry per key. \<^verbatim>\<open>parseQuery\<close> is the loop of \<^verbatim>\<open>url.ParseQuery\<close>: it walks the pieces
  between \<^verbatim>\<open>&\<close>, skips a piece that holds a semicolon, is empty or does not unescape,
  and appends the value to its key's list otherwise. \<^verbatim>\<open>URL.Query\<close> drops the error.
\<close>

fun QueryUnescape :: "string \<Rightarrow> string option" where
  "QueryUnescape [] = Some []"
| "QueryUnescape (c # cs) =
     (if c = CHR ''%'' then
        (case cs of
           h1 # h2 # rest \<Rightarrow>
             (if ishex h1 \<and> ishex h2
              then map_option ((#) (char_of (unhex h1 * 16 + unhex h2))) (QueryUnescape rest)
              else None)
         | _ \<Rightarrow> None)
      else if c = CHR ''+'' then map_option ((#) CHR '' '') (QueryUnescape cs)
      else map_option ((#) c) (QueryUnescape cs))"

type_synonym Values = "(string \<times> string list) list"

fun Values_add :: "Values \<Rightarrow> string \<Rightarrow> string \<Rightarrow> Values" where
  "Values_add [] k v = [(k, [v])]"
| "Values_add ((k', vs) # m) k v =
     (if k' = k then (k', vs @ [v]) # m else (k', vs) # Values_add m k v)"


lemma Cut_snd_shorter: "query \<noteq> [] \<Longrightarrow> length (snd (Cut query sep)) < length query"
proof -
  assume ne: "query \<noteq> []"
  have le: "length (dropWhile (\<lambda>c. c \<noteq> sep) query) \<le> length query"
    by (rule length_dropWhile_le)
  from ne have pos: "0 < length query" by simp
  from le pos show ?thesis
    unfolding Cut_def by (simp only: snd_conv length_drop)
qed

function parseQuery :: "Values \<Rightarrow> string \<Rightarrow> Values" where
  "parseQuery m query =
     (if query = [] then m
      else
        (let key = fst (Cut query CHR ''&''); rest = snd (Cut query CHR ''&'')
         in if CHR '';'' \<in> set key then parseQuery m rest
            else if key = [] then parseQuery m rest
            else
              (case QueryUnescape (fst (Cut key CHR ''='')) of
                 None \<Rightarrow> parseQuery m rest
               | Some k \<Rightarrow>
                   (case QueryUnescape (snd (Cut key CHR ''='')) of
                      None \<Rightarrow> parseQuery m rest
                    | Some v \<Rightarrow> parseQuery (Values_add m k v) rest))))"
  by pat_completeness auto
termination
  by (relation "measure (\<lambda>(m, query). length query)") (simp_all add: Cut_snd_shorter)

declare parseQuery.simps [simp del]


text \<open>
  \<^verbatim>\<open>Values.Encode\<close> writes the keys in sorted order (byte-wise string comparison), each
  key with its values in the order they were added.
\<close>

fun strLess :: "string \<Rightarrow> string \<Rightarrow> bool" where
  "strLess [] [] = False"
| "strLess [] (y # ys) = True"
| "strLess (x # xs) [] = False"
| "strLess (x # xs) (y # ys) =
     ((of_char x :: nat) < of_char y \<or> (x = y \<and> strLess xs ys))"

fun insertKey :: "string \<Rightarrow> string list \<Rightarrow> string list" where
  "insertKey k [] = [k]"
| "insertKey k (x # xs) = (if strLess x k then x # insertKey k xs else k # x # xs)"

definition sortKeys :: "string list \<Rightarrow> string list" where
  "sortKeys ks = foldr insertKey ks []"

fun joinWith :: "string \<Rightarrow> string list \<Rightarrow> string" where
  "joinWith sep [] = []"
| "joinWith sep [x] = x"
| "joinWith sep (x # y # ys) = x @ sep @ joinWith sep (y # ys)"

definition Values_get :: "Values \<Rightarrow> string \<Rightarrow> string list" where
  "Values_get v k = (case map_of v k of None \<Rightarrow> [] | Some vs \<Rightarrow> vs)"

definition Encode :: "Values \<Rightarrow> string" where
  "Encode v =
     joinWith ''&''
       (concat (map (\<lambda>k. map (\<lambda>x. QueryEscape k @ ''='' @ QueryEscape x) (Values_get v k))
                    (sortKeys (map fst v))))"

text \<open>
  \<^verbatim>\<open>url.URL\<close>, with the fields the director reads or writes. \<open>URLHost\<close> is the field
  \<^verbatim>\<open>URL.Host\<close> (renamed: \<open>Host\<close> is the request's field below).
\<close>

record URL =
  Scheme :: string
  Opaque :: string
  URLHost :: string
  Path :: string
  ForceQuery :: bool
  RawQuery :: string

text \<open>\<^verbatim>\<open>URL.Query\<close> parses \<open>RawQuery\<close> and drops the pairs that do not parse.\<close>

definition Query :: "URL \<Rightarrow> Values" where
  "Query u = parseQuery [] (RawQuery u)"

section \<open>Header maps (net/http, net/textproto)\<close>

text \<open>
  \<^verbatim>\<open>http.Header\<close> is a \<^verbatim>\<open>map[string][]string\<close>. \<^verbatim>\<open>Set\<close>, \<^verbatim>\<open>Get\<close> and \<^verbatim>\<open>Del\<close>
  canonicalise the key they are given; a direct index (\<^verbatim>\<open>request.Header[k]\<close>) does not.
\<close>

type_synonym Header = "string \<rightharpoonup> string list"

definition validHeaderFieldByte :: "char \<Rightarrow> bool" where
  "validHeaderFieldByte c =
     (isAlnum c \<or> c \<in> set ''!#$%&*+-.^_|~'' \<or> c = CHR 0x27 \<or> c = CHR 0x60)"

definition isLower :: "char \<Rightarrow> bool" where
  "isLower c = (97 \<le> (of_char c :: nat) \<and> (of_char c :: nat) \<le> 122)"

definition isUpper :: "char \<Rightarrow> bool" where
  "isUpper c = (65 \<le> (of_char c :: nat) \<and> (of_char c :: nat) \<le> 90)"

fun canonicalCase :: "bool \<Rightarrow> string \<Rightarrow> string" where
  "canonicalCase upper [] = []"
| "canonicalCase upper (c # cs) =
     (let c' = (if upper \<and> isLower c then char_of ((of_char c :: nat) - 32)
                else if \<not> upper \<and> isUpper c then char_of ((of_char c :: nat) + 32)
                else c)
      in c' # canonicalCase (c' = CHR ''-'') cs)"

definition CanonicalHeaderKey :: "string \<Rightarrow> string" where
  "CanonicalHeaderKey s =
     (if list_all validHeaderFieldByte s then canonicalCase True s else s)"

definition Header_Set :: "Header \<Rightarrow> string \<Rightarrow> string \<Rightarrow> Header" where
  "Header_Set h key v = h(CanonicalHeaderKey key \<mapsto> [v])"

definition Header_Del :: "Header \<Rightarrow> string \<Rightarrow> Header" where
  "Header_Del h key = h(CanonicalHeaderKey key := None)"

definition Header_Get :: "Header \<Rightarrow> string \<Rightarrow> string" where
  "Header_Get h key =
     (case h (CanonicalHeaderKey key) of
        None \<Rightarrow> []
      | Some [] \<Rightarrow> []
      | Some (v # vs) \<Rightarrow> v)"

section \<open>Instants (package time) and decimal formatting (strconv)\<close>

text \<open>
  A \<^verbatim>\<open>time.Time\<close> is modelled by the instant it denotes, in nanoseconds relative to the
  Unix epoch. The zero value \<^verbatim>\<open>time.Time{}\<close> is January 1 of year 1, 00:00:00 UTC,
  which is 62135596800 seconds before the epoch. \<^verbatim>\<open>Equal\<close> compares instants.
  \<^verbatim>\<open>UnixNano\<close> returns an \<^verbatim>\<open>int64\<close>, \<^verbatim>\<open>Sub\<close> saturates at the bounds of
  \<^verbatim>\<open>int64\<close>, and Go's integer division truncates toward zero (\<open>sdiv\<close>).
\<close>

type_synonym Time = int

definition zeroTime :: Time where
  "zeroTime = - 62135596800 * 1000000000"

definition int64 :: "int \<Rightarrow> int" where
  "int64 x = (x + 2 ^ 63) mod 2 ^ 64 - 2 ^ 63"

definition UnixNano :: "Time \<Rightarrow> int" where
  "UnixNano t = int64 t"

definition Sub :: "Time \<Rightarrow> Time \<Rightarrow> Duration" where
  "Sub t u =
     (let d = t - u
      in if d > 2 ^ 63 - 1 then 2 ^ 63 - 1 else if d < - (2 ^ 63) then - (2 ^ 63) else d)"

definition digits :: string where
  "digits = ''0123456789abcdefghijklmnopqrstuvwxyz''"

definition digitChar :: "nat \<Rightarrow> char" where
  "digitChar d = digits ! d"

function formatNat :: "nat \<Rightarrow> string" where
  "formatNat n = (if n < 10 then [digitChar n] else formatNat (n div 10) @ [digitChar (n mod 10)])"
  by pat_completeness auto
termination
  by (relation "measure (\<lambda>n. n)") simp_all

declare formatNat.simps [simp del]

definition FormatInt :: "int \<Rightarrow> string" where
  "FormatInt i = (if i < 0 then CHR ''-'' # formatNat (nat (- i)) else formatNat (nat i))"


section \<open>The request, its RequestInfo, the response writer and the world around a handler\<close>

text \<open>
  \<^verbatim>\<open>*route.Endpoint\<close> and \<^verbatim>\<open>*route.EndpointPool\<close> are only tested against nil and
  passed on by the handlers modelled here.
\<close>

datatype Endpoint = Endpoint (address: string) (port: nat)

datatype EndpointPool = EndpointPool (endpoints: "Endpoint list")

text \<open>
  The fields of \<^verbatim>\<open>handlers.RequestInfo\<close> that the handlers below read or write. The
  object is shared by pointer between all handlers of one request.
  \<open>BackendReqHeaders\<close> is assigned the request's header map itself (Go maps are
  references), so it shows every later write to that map; the model stores the map as it
  stands when the director returns.
\<close>

record RequestInfo =
  ReceivedAt :: Time
  AppRequestStartedAt :: Time
  AppRequestFinishedAt :: Time
  RoutePool :: "EndpointPool option"
  RouteEndpoint :: "Endpoint option"
  BackendReqHeaders :: "Header option"

text \<open>
  The request's context either carries the pointer to the request's one RequestInfo
  object or it does not.
\<close>

datatype RequestInfoPtr = TheRequestInfo

datatype ConnectionState = ConnectionState (HandshakeComplete: bool)

record Request =
  Host :: string
  RequestURI :: string
  ProtoMajor :: int
  TLS :: "ConnectionState option"
  Close :: bool
  Header :: Header
  URL :: URL
  Context :: "RequestInfoPtr option"

text \<open>
  Modelled from the spec: \<^verbatim>\<open>handlers.ContextRequestInfo\<close> is not among the sources. The
  spec (4.1): a single RequestInfo object is attached to the request and is readable by
  all subsequent handlers; readers report a fatal panic-equivalent if it is absent. The
  function returns the pointer, or an error when the context carries none.
\<close>

definition ContextRequestInfo :: "Request \<Rightarrow> string + RequestInfoPtr" where
  "ContextRequestInfo req =
     (case Context req of
        None \<Rightarrow> Inl ''RequestInfo not set on context''
      | Some p \<Rightarrow> Inr p)"

text \<open>
  An \<^verbatim>\<open>http.ResponseWriter\<close>, with the contract net/http documents for it: \<^verbatim>\<open>Header()\<close>
  is the live header map; the first \<^verbatim>\<open>WriteHeader\<close> fixes the status and sends the
  header map as it stands; a later \<^verbatim>\<open>WriteHeader\<close> is ignored; a \<^verbatim>\<open>Write\<close> before any
  \<^verbatim>\<open>WriteHeader\<close> implies \<^verbatim>\<open>WriteHeader(200)\<close>. (Only final status codes are written by
  the handlers here; 1xx codes are not modelled.) \<open>isProxyResponseWriter\<close> says whether
  the writer's dynamic type implements \<^verbatim>\<open>utils.ProxyResponseWriter\<close>, which decides the
  type assertion \<^verbatim>\<open>rw.(utils.ProxyResponseWriter)\<close>; \<open>fullDuplexUnsupported\<close> says whether
  \<^verbatim>\<open>EnableFullDuplex\<close> returns an error on it.
\<close>

record ResponseWriter =
  respHeader :: Header
  wroteHeader :: bool
  status :: int
  sentHeader :: Header
  body :: string
  isProxyResponseWriter :: bool
  fullDuplexUnsupported :: bool

definition StatusOK :: int where
  "StatusOK = 200"

definition StatusServiceUnavailable :: int where
  "StatusServiceUnavailable = 503"

definition rw_Header_Set :: "ResponseWriter \<Rightarrow> string \<Rightarrow> string \<Rightarrow> ResponseWriter" where
  "rw_Header_Set rw key v = rw\<lparr>respHeader := Header_Set (respHeader rw) key v\<rparr>"

definition WriteHeader :: "ResponseWriter \<Rightarrow> int \<Rightarrow> ResponseWriter" where
  "WriteHeader rw code =
     (if wroteHeader rw then rw
      else rw\<lparr>wroteHeader := True, status := code, sentHeader := respHeader rw\<rparr>)"

definition Write :: "ResponseWriter \<Rightarrow> string \<Rightarrow> ResponseWriter" where
  "Write rw b =
     (let rw' = (if wroteHeader rw then rw else WriteHeader rw StatusOK)
      in rw'\<lparr>body := body rw' @ b\<rparr>)"

text \<open>
  Modelled from the spec: package \<^verbatim>\<open>common/health\<close> is not among the sources. The spec
  names the states Healthy and Degraded and the operations \<^verbatim>\<open>SetHealth(state)\<close> and
  \<^verbatim>\<open>Health()\<close>; \<open>Initializing\<close> stands for the state before the router is healthy.
\<close>

datatype Status = Initializing | Healthy | Degraded

text \<open>The calls a \<^verbatim>\<open>metrics.ProxyReporter\<close> receives from the reporter handler.\<close>

datatype Metric =
    CaptureMissingContentLengthHeader
  | CaptureRoutingResponse int
  | CaptureRoutingResponseLatency Endpoint int Time Duration

text \<open>
  What a panic carries: \<^verbatim>\<open>http.ErrAbortHandler\<close>, the panic of \<^verbatim>\<open>logger.Panic\<close> (with its
  message), the runtime panic of a failed type assertion, or any other value.
\<close>

datatype PanicValue =
    ErrAbortHandler
  | LoggerPanic string
  | TypeAssertionPanic
  | OtherPanic string

text \<open>
  Everything a handler can read or change: the request \<^verbatim>\<open>r\<close> (a pointer, so a handler's
  writes are seen by its caller), the RequestInfo object, the response writer \<^verbatim>\<open>rw\<close>, the
  health state, the calls received by the metrics reporter so far, and the reading
  \<^verbatim>\<open>time.Now()\<close> returns. A handler either returns (\<open>Inr\<close>) or panics (\<open>Inl\<close>, with the
  panic value and the world as the panic leaves it).
\<close>

record World =
  request :: Request
  reqInfo :: RequestInfo
  writer :: ResponseWriter
  health :: Status
  reported :: "Metric list"
  now :: Time

type_synonym Handler = "World \<Rightarrow> (PanicValue \<times> World) + World"

section \<open>proxy.go: the director and the final pipeline stage\<close>

text \<open>
  Modelled from the spec: the constant \<^verbatim>\<open>router_http.CfAppInstance\<close> is not among the
  sources; the spec (6.3) names the header \<^verbatim>\<open>X-CF-App-Instance\<close>. \<^verbatim>\<open>Header.Del\<close>
  canonicalises the name, so its spelling's case does not matter.
\<close>

definition CfAppInstance :: string where
  "CfAppInstance = ''X-CF-App-Instance''"

text \<open>
  \<^verbatim>\<open>setRequestXRequestStart\<close>; \<open>t\<close> is what \<^verbatim>\<open>time.Now()\<close> returns when the function runs.
  The test for the header is the map index \<^verbatim>\<open>request.Header[...]\<close> under the canonical
  key: a key that is present counts, whatever its list of values.
\<close>

definition setRequestXRequestStart :: "Time \<Rightarrow> Request \<Rightarrow> Request" where
  "setRequestXRequestStart t req =
     (case Header req (CanonicalHeaderKey ''X-Request-Start'') of
        None \<Rightarrow>
          req\<lparr>Header := Header_Set (Header req) ''X-Request-Start''
                           (FormatInt (UnixNano t sdiv 1000000))\<rparr>
      | Some vs \<Rightarrow> req)"

definition escapePathAndPreserveSlashes :: "string \<Rightarrow> string" where
  "escapePathAndPreserveSlashes unescaped =
     (let parts = Split unescaped CHR ''/'';
          escapedPath = foldl (\<lambda>escapedPath part. escapedPath @ PathEscape part @ ''/'') [] parts
      in TrimSuffix escapedPath ''/'')"

text \<open>
  The director \<^verbatim>\<open>proxy.setupProxyRequest\<close>, statement by statement. \<^verbatim>\<open>logger.Panic\<close> logs
  and panics (reporter.go says so in its comment), so the \<^verbatim>\<open>return\<close> after it is never
  reached.
\<close>

definition setupProxyRequest :: Handler where
  "setupProxyRequest w =
     (let target = request w in
      case ContextRequestInfo target of
        Inl err \<Rightarrow> Inl (LoggerPanic ''request-info-err'', w)
      | Inr p \<Rightarrow>
          (let u1 = (URL target)\<lparr>Scheme := ''http'', URLHost := Host target,
                                  ForceQuery := False, Opaque := RequestURI target\<rparr>;
               u2 = (if HasPrefix (RequestURI target) ''//'' then
                       (let path = escapePathAndPreserveSlashes (Path u1);
                            u = u1\<lparr>Opaque := ''//'' @ Host target @ path\<rparr>
                        in if length (Query u) > 0
                           then u\<lparr>Opaque := Opaque u @ ''?'' @ Encode (Query u)\<rparr>
                           else u)
                     else u1);
               u3 = u2\<lparr>RawQuery := []\<rparr>;
               t1 = setRequestXRequestStart (now w) (target\<lparr>URL := u3\<rparr>);
               t2 = t1\<lparr>Header := Header_Del (Header t1) CfAppInstance\<rparr>
           in Inr (w\<lparr>request := t2,
                     reqInfo := (reqInfo w)\<lparr>BackendReqHeaders := Some (Header t2)\<rparr>\<rparr>)))"

text \<open>
  \<^verbatim>\<open>proxy.ServeHTTP\<close>. \<open>next\<close> is the rest of the chain (the reverse proxy); it works on
  the same request, RequestInfo and writer.
\<close>

definition proxy_ServeHTTP :: "Config \<Rightarrow> Handler \<Rightarrow> Handler" where
  "proxy_ServeHTTP config next w =
     (if \<not> isProxyResponseWriter (writer w) then Inl (TypeAssertionPanic, w)
      else if EnableHTTP1ConcurrentReadWrite config \<and> ProtoMajor (request w) = 1
              \<and> fullDuplexUnsupported (writer w)
        then Inl (LoggerPanic ''enable-full-duplex-err'', w)
      else
        (case ContextRequestInfo (request w) of
           Inl err \<Rightarrow> Inl (LoggerPanic ''request-info-err'', w)
         | Inr p \<Rightarrow>
             if RoutePool (reqInfo w) = None then Inl (LoggerPanic ''request-info-err'', w)
             else
               (let w1 = w\<lparr>reqInfo := (reqInfo w)\<lparr>AppRequestStartedAt := now w\<rparr>\<rparr>
                in case next w1 of
                     Inl pw \<Rightarrow> Inl pw
                   | Inr w2 \<Rightarrow>
                       Inr (w2\<lparr>reqInfo := (reqInfo w2)\<lparr>AppRequestFinishedAt := now w2\<rparr>\<rparr>))))"

text \<open>
  \<^verbatim>\<open>RouteServiceValidator\<close> is an interface; a value of it is the pair of its methods.
\<close>

record RouteServiceValidator =
  ArrivedViaRouteService :: "Request \<Rightarrow> string + bool"
  IsRouteServiceTraffic :: "Request \<Rightarrow> bool"

definition SkipSanitizeXFP :: "RouteServiceValidator \<Rightarrow> Request \<Rightarrow> bool" where
  "SkipSanitizeXFP routeServiceValidator req = IsRouteServiceTraffic routeServiceValidator req"

definition SkipSanitize :: "RouteServiceValidator \<Rightarrow> Request \<Rightarrow> bool" where
  "SkipSanitize routeServiceValidator req =
     (IsRouteServiceTraffic routeServiceValidator req \<and> TLS req \<noteq> None)"

section \<open>handlers/healthcheck.go and handlers/reporter.go\<close>

text \<open>\<^verbatim>\<open>healthcheck.ServeHTTP\<close>; it has no panic of its own, so it is a function on the world.\<close>

definition healthcheck_ServeHTTP :: "World \<Rightarrow> World" where
  "healthcheck_ServeHTTP w =
     (let rw1 = rw_Header_Set (writer w) ''Cache-Control'' ''private, max-age=0'';
          rw2 = rw_Header_Set rw1 ''Expires'' ''0''
      in if health w \<noteq> Healthy then
           w\<lparr>writer := WriteHeader rw2 StatusServiceUnavailable,
             request := (request w)\<lparr>Close := True\<rparr>\<rparr>
         else
           w\<lparr>writer := Write (WriteHeader rw2 StatusOK) (''ok'' @ [CHR 0x0A]),
             request := (request w)\<lparr>Close := True\<rparr>\<rparr>)"

definition report :: "Metric \<Rightarrow> World \<Rightarrow> World" where
  "report m w = w\<lparr>reported := reported w @ [m]\<rparr>"

text \<open>
  \<^verbatim>\<open>reporterHandler.ServeHTTP\<close>. The writer \<^verbatim>\<open>rw\<close> is the interface value the handler
  was called with, so the type assertion after \<open>next\<close> tests the dynamic type it had on
  entry; its status is read after \<open>next\<close>.
\<close>

definition reporter_ServeHTTP :: "Handler \<Rightarrow> Handler" where
  "reporter_ServeHTTP next w =
     (case ContextRequestInfo (request w) of
        Inl err \<Rightarrow> Inl (LoggerPanic ''request-info-err'', w)
      | Inr p \<Rightarrow>
          (let w1 = (if Header_Get (Header (request w)) ''Content-Length'' = []
                     then report CaptureMissingContentLengthHeader w else w)
           in case next w1 of
                Inl pw \<Rightarrow> Inl pw
              | Inr w2 \<Rightarrow>
                  (case RouteEndpoint (reqInfo w2) of
                     None \<Rightarrow> Inr w2
                   | Some ep \<Rightarrow>
                       if \<not> isProxyResponseWriter (writer w) then Inl (TypeAssertionPanic, w2)
                       else
                         (let w3 = report (CaptureRoutingResponse (status (writer w2))) w2
                          in if AppRequestFinishedAt (reqInfo w3) = zeroTime then Inr w3
                             else Inr (report
                                        (CaptureRoutingResponseLatency ep (status (writer w3))
                                           (ReceivedAt (reqInfo w3))
                                           (Sub (AppRequestFinishedAt (reqInfo w3))
                                                (ReceivedAt (reqInfo w3))))
                                        w3)))))"

section \<open>The panic guard (panicCheck.ServeHTTP, package handlers)\<close>

text \<open>
  \<^verbatim>\<open>recover()\<close> in the deferred function returns nil when \<open>next\<close> returned and the
  panic's value when \<open>next\<close> panicked; the world is as \<open>next\<close> left it either way.
  (\<^verbatim>\<open>proxy.go\<close> calls \<^verbatim>\<open>EnableFullDuplex\<close>, which needs Go 1.21; from that version on a
  \<^verbatim>\<open>panic(nil)\<close> reaches \<^verbatim>\<open>recover\<close> as a non-nil \<^verbatim>\<open>*runtime.PanicNilError\<close>, an
  \<open>OtherPanic\<close> here.) A recovered panic stops: unless the deferred function panics
  again, \<^verbatim>\<open>ServeHTTP\<close> returns to its caller.
\<close>

definition recover :: "(PanicValue \<times> World) + World \<Rightarrow> PanicValue option \<times> World" where
  "recover outcome =
     (case outcome of
        Inr w' \<Rightarrow> (None, w')
      | Inl (v, w') \<Rightarrow> (Some v, w'))"

definition SetHealth :: "Status \<Rightarrow> World \<Rightarrow> World" where
  "SetHealth s w = w\<lparr>health := s\<rparr>"

text \<open>
  \<^verbatim>\<open>panicCheck.ServeHTTP\<close>: \<^verbatim>\<open>next(rw, r)\<close> under a deferred function. The deferred
  function does nothing when \<^verbatim>\<open>rec\<close> is nil; otherwise it switches on \<^verbatim>\<open>rec\<close>: for
  \<^verbatim>\<open>http.ErrAbortHandler\<close> it panics with \<^verbatim>\<open>http.ErrAbortHandler\<close>; by default it logs
  the error (the conversion of \<^verbatim>\<open>rec\<close> to an \<^verbatim>\<open>error\<close> only feeds that log line, which
  changes nothing here), calls \<^verbatim>\<open>p.health.SetHealth(health.Degraded)\<close> and
  \<^verbatim>\<open>rw.WriteHeader(http.StatusServiceUnavailable)\<close>, and sets \<^verbatim>\<open>r.Close = true\<close>.
\<close>

definition panicCheck_ServeHTTP :: "Handler \<Rightarrow> Handler" where
  "panicCheck_ServeHTTP next w =
     (case recover (next w) of
        (None, w') \<Rightarrow> Inr w'
      | (Some rec, w') \<Rightarrow>
          (case rec of
             ErrAbortHandler \<Rightarrow> Inl (ErrAbortHandler, w')
           | _ \<Rightarrow>
               (let w1 = SetHealth Degraded w';
                    w2 = w1\<lparr>writer := WriteHeader (writer w1) StatusServiceUnavailable\<rparr>
                in Inr (w2\<lparr>request := (request w2)\<lparr>Close := True\<rparr>\<rparr>))))"

section \<open>Concrete inputs\<close>

text \<open>
  A GET of \<^verbatim>\<open>/x\<close> on host \<^verbatim>\<open>a.app\<close> with its RequestInfo attached and a pool looked up,
  a response writer nothing has been written to, a healthy router, and a clock reading
  (in nanoseconds since the Unix epoch).
\<close>

definition example_request :: Request where
  "example_request =
     \<lparr>Host = ''a.app'', RequestURI = ''/x'', ProtoMajor = 1, TLS = None, Close = False,
      Header = [''User-Agent'' \<mapsto> [''curl''], ''X-Cf-App-Instance'' \<mapsto> [''guid:0'']],
      URL = \<lparr>Scheme = [], Opaque = [], URLHost = [], Path = ''/x'', ForceQuery = False,
             RawQuery = []\<rparr>,
      Context = Some TheRequestInfo\<rparr>"

definition example_reqInfo :: RequestInfo where
  "example_reqInfo =
     \<lparr>ReceivedAt = 1700000000000000000, AppRequestStartedAt = zeroTime,
      AppRequestFinishedAt = zeroTime,
      RoutePool = Some (EndpointPool [Endpoint ''10.0.0.1'' 8080]),
      RouteEndpoint = None, BackendReqHeaders = None\<rparr>"

definition fresh_writer :: ResponseWriter where
  "fresh_writer =
     \<lparr>respHeader = Map.empty, wroteHeader = False, status = 0, sentHeader = Map.empty,
      body = [], isProxyResponseWriter = True, fullDuplexUnsupported = False\<rparr>"

definition example_world :: World where
  "example_world =
     \<lparr>request = example_request, reqInfo = example_reqInfo, writer = fresh_writer,
      health = Healthy, reported = [], now = 1700000000123456789\<rparr>"

text \<open>
  The same request sent as \<^verbatim>\<open>GET //foo!bar HTTP/1.1\<close>: net/http leaves the request
  line in \<open>RequestURI\<close> and parses it into \<open>URL.Path\<close>.
\<close>

definition double_slash_world :: World where
  "double_slash_world =
     example_world\<lparr>request := example_request
       \<lparr>RequestURI := ''//foo!bar'',
        URL := \<lparr>Scheme = [], Opaque = [], URLHost = [], Path = ''//foo!bar'',
                ForceQuery = False, RawQuery = []\<rparr>\<rparr>\<rparr>"

text \<open>
  A downstream chain that selects an endpoint, answers 200 and takes five milliseconds,
  and one that panics with a given value at once.
\<close>

definition example_next :: Handler where
  "example_next w =
     Inr (w\<lparr>reqInfo := (reqInfo w)\<lparr>RouteEndpoint := Some (Endpoint ''10.0.0.1'' 8080)\<rparr>,
            writer := Write (WriteHeader (writer w) StatusOK) ''hello'',
            now := now w + 5 * Millisecond\<rparr>)"

definition panicking_next :: "PanicValue \<Rightarrow> Handler" where
  "panicking_next v w = Inl (v, w)"

text \<open>Two route-service validators: one that recognises every request, one that recognises none.\<close>

definition accepting_validator :: RouteServiceValidator where
  "accepting_validator =
     \<lparr>ArrivedViaRouteService = (\<lambda>req. Inr True), IsRouteServiceTraffic = (\<lambda>req. True)\<rparr>"

definition rejecting_validator :: RouteServiceValidator where
  "rejecting_validator =
     \<lparr>ArrivedViaRouteService = (\<lambda>req. Inr False), IsRouteServiceTraffic = (\<lambda>req. False)\<rparr>"

section \<open>Theorems\<close>

subsection \<open>The transport templates\<close>

lemma templates_agree_elsewhere:
  "(RouteServiceTemplate (NewProxy_roundTripperFactory cfg b r))
      \<lparr>TLSClientConfig := x, TLSHandshakeTimeout := y\<rparr>
   = (BackendTemplate (NewProxy_roundTripperFactory cfg b r))
      \<lparr>TLSClientConfig := x, TLSHandshakeTimeout := y\<rparr>"
  by (simp add: NewProxy_roundTripperFactory_def)

text \<open>
  C1. The claim: the backend and the route-service template differ only in their TLS
  configuration, and in particular carry the same TLS-handshake timeout. Evaluated at a
  configuration whose TLS-handshake timeout is ten seconds, the backend template carries
  the ten seconds and the route-service template carries the zero duration (no timeout):
  the two templates differ in a field other than the TLS configuration.
\<close>

theorem C1_handshake_timeout_differs:
  "Transport.TLSHandshakeTimeout
       (BackendTemplate (NewProxy_roundTripperFactory example_config None None))
     = 10000000000
   \<and> Transport.TLSHandshakeTimeout
       (RouteServiceTemplate (NewProxy_roundTripperFactory example_config None None))
     = 0
   \<and> TLSClientConfig (BackendTemplate (NewProxy_roundTripperFactory example_config None None))
     = TLSClientConfig
         (RouteServiceTemplate (NewProxy_roundTripperFactory example_config None None))"
  by (simp add: NewProxy_roundTripperFactory_def example_config_def Second_def Millisecond_def)

subsection \<open>Canonical forms of the header names the handlers use\<close>

lemma CanonicalHeaderKey_XRequestStart: "CanonicalHeaderKey ''X-Request-Start'' = ''X-Request-Start''"
  by code_simp

lemma CanonicalHeaderKey_CfAppInstance: "CanonicalHeaderKey CfAppInstance = ''X-Cf-App-Instance''"
  by code_simp

lemma CanonicalHeaderKey_CacheControl: "CanonicalHeaderKey ''Cache-Control'' = ''Cache-Control''"
  by code_simp

lemma CanonicalHeaderKey_Expires: "CanonicalHeaderKey ''Expires'' = ''Expires''"
  by code_simp

lemma CanonicalHeaderKey_ContentLength: "CanonicalHeaderKey ''Content-Length'' = ''Content-Length''"
  by code_simp

subsection \<open>The skip-sanitization predicate\<close>

text \<open>
  C5. The skip-sanitization predicate of the X-Forwarded-Client-Cert handler returns true
  for a request if and only if the request is route-service traffic and the connection
  is TLS (\<^verbatim>\<open>req.TLS\<close> is not nil); for a request that is not route-service traffic, or
  whose connection is not TLS, it returns false.
\<close>

theorem C5_SkipSanitize_iff:
  "SkipSanitize v req = (IsRouteServiceTraffic v req \<and> TLS req \<noteq> None)
   \<and> (\<not> IsRouteServiceTraffic v req \<or> TLS req = None \<longrightarrow> \<not> SkipSanitize v req)"
  by (simp add: SkipSanitize_def)

text \<open>
  C5 at concrete requests: route-service traffic over TLS, route-service traffic without
  TLS, and TLS traffic that is not route-service traffic.
\<close>

theorem C5_SkipSanitize_witness:
  "SkipSanitize accepting_validator (example_request\<lparr>TLS := Some (ConnectionState True)\<rparr>)
   \<and> \<not> SkipSanitize accepting_validator example_request
   \<and> \<not> SkipSanitize rejecting_validator (example_request\<lparr>TLS := Some (ConnectionState True)\<rparr>)"
  using C5_SkipSanitize_iff [of accepting_validator "example_request\<lparr>TLS := Some (ConnectionState True)\<rparr>"]
    C5_SkipSanitize_iff [of accepting_validator example_request]
    C5_SkipSanitize_iff [of rejecting_validator "example_request\<lparr>TLS := Some (ConnectionState True)\<rparr>"]
  by (simp add: accepting_validator_def rejecting_validator_def example_request_def)

subsection \<open>The health-check handler\<close>

text \<open>
  C6. On a writer that nothing has been written to, the health-check handler responds
  200 with the body "ok" (the bytes \<^verbatim>\<open>ok\<close> and a line feed, as \<^verbatim>\<open>rw.Write([]byte("ok\n"))\<close>
  writes them) when the health state is Healthy; when the health state is anything
  else it responds 503, writes no body and marks the request's connection for close.
\<close>

theorem C6_healthcheck_status:
  assumes fresh: "\<not> wroteHeader (writer w)"
  shows "(health w = Healthy \<longrightarrow>
            status (writer (healthcheck_ServeHTTP w)) = 200
          \<and> body (writer (healthcheck_ServeHTTP w)) = body (writer w) @ ''ok'' @ [CHR 0x0A])
       \<and> (health w \<noteq> Healthy \<longrightarrow>
            status (writer (healthcheck_ServeHTTP w)) = 503
          \<and> body (writer (healthcheck_ServeHTTP w)) = body (writer w)
          \<and> Close (request (healthcheck_ServeHTTP w)))"
  using fresh
  by (simp add: healthcheck_ServeHTTP_def rw_Header_Set_def WriteHeader_def Write_def
      StatusOK_def StatusServiceUnavailable_def Let_def)

text \<open>
  C6 at the example world (healthy) and at the same world with a degraded router.
\<close>

theorem C6_healthcheck_status_witness:
  "\<not> wroteHeader (writer example_world)
   \<and> status (writer (healthcheck_ServeHTTP example_world)) = 200
   \<and> body (writer (healthcheck_ServeHTTP example_world)) = ''ok'' @ [CHR 0x0A]
   \<and> status (writer (healthcheck_ServeHTTP (example_world\<lparr>health := Degraded\<rparr>))) = 503
   \<and> body (writer (healthcheck_ServeHTTP (example_world\<lparr>health := Degraded\<rparr>))) = []
   \<and> Close (request (healthcheck_ServeHTTP (example_world\<lparr>health := Degraded\<rparr>)))"
  using C6_healthcheck_status [of example_world]
    C6_healthcheck_status [of "example_world\<lparr>health := Degraded\<rparr>"]
  by (simp add: example_world_def fresh_writer_def)

text \<open>
  C10. In both branches the health-check handler sets \<^verbatim>\<open>Cache-Control: private, max-age=0\<close>
  and \<^verbatim>\<open>Expires: 0\<close> in the writer's header map and marks the request's connection for
  close, also on the healthy 200 response; on a writer that nothing has been written to,
  the response it sends (200 or 503) carries both headers.
\<close>

theorem C10_healthcheck_headers_close:
  "respHeader (writer (healthcheck_ServeHTTP w)) ''Cache-Control'' = Some [''private, max-age=0'']
   \<and> respHeader (writer (healthcheck_ServeHTTP w)) ''Expires'' = Some [''0'']
   \<and> Close (request (healthcheck_ServeHTTP w))
   \<and> (\<not> wroteHeader (writer w) \<longrightarrow>
         wroteHeader (writer (healthcheck_ServeHTTP w))
       \<and> status (writer (healthcheck_ServeHTTP w)) = (if health w = Healthy then 200 else 503)
       \<and> sentHeader (writer (healthcheck_ServeHTTP w)) ''Cache-Control''
           = Some [''private, max-age=0'']
       \<and> sentHeader (writer (healthcheck_ServeHTTP w)) ''Expires'' = Some [''0''])"
  by (simp add: healthcheck_ServeHTTP_def rw_Header_Set_def WriteHeader_def Write_def Header_Set_def
      CanonicalHeaderKey_CacheControl CanonicalHeaderKey_Expires
      StatusOK_def StatusServiceUnavailable_def Let_def)

text \<open>
  C10 at the example world (healthy, 200) and at the same world while the router is still
  initializing (503).
\<close>

theorem C10_healthcheck_headers_close_witness:
  "sentHeader (writer (healthcheck_ServeHTTP example_world)) ''Cache-Control''
      = Some [''private, max-age=0'']
   \<and> sentHeader (writer (healthcheck_ServeHTTP example_world)) ''Expires'' = Some [''0'']
   \<and> status (writer (healthcheck_ServeHTTP example_world)) = 200
   \<and> Close (request (healthcheck_ServeHTTP example_world))
   \<and> sentHeader (writer (healthcheck_ServeHTTP (example_world\<lparr>health := Initializing\<rparr>))) ''Expires''
      = Some [''0'']
   \<and> status (writer (healthcheck_ServeHTTP (example_world\<lparr>health := Initializing\<rparr>))) = 503"
  using C10_healthcheck_headers_close [of example_world]
    C10_healthcheck_headers_close [of "example_world\<lparr>health := Initializing\<rparr>"]
  by (simp add: example_world_def fresh_writer_def)

subsection \<open>The X-Request-Start header\<close>

lemma formatNat_small: "n < 10 \<Longrightarrow> formatNat n = [digitChar n]"
  by (subst formatNat.simps) simp

lemma formatNat_big:
  "\<not> n < 10 \<Longrightarrow> formatNat n = formatNat (n div 10) @ [digitChar (n mod 10)]"
  by (subst formatNat.simps) simp

lemma UnixNano_in_range: "- (2 ^ 63) \<le> t \<Longrightarrow> t < 2 ^ 63 \<Longrightarrow> UnixNano t = t"
proof -
  assume lo: "- (2 ^ 63) \<le> t" and hi: "t < 2 ^ 63"
  have "0 \<le> t + 2 ^ 63" "t + 2 ^ 63 < 2 ^ 64"
    using lo hi by simp_all
  then have "(t + 2 ^ 63) mod 2 ^ 64 = t + 2 ^ 63"
    by (rule mod_pos_pos_trivial)
  then show ?thesis
    by (simp add: UnixNano_def int64_def)
qed

lemma sdiv_nonneg: "0 \<le> (a::int) \<Longrightarrow> 0 < b \<Longrightarrow> a sdiv b = a div b"
  by (cases "a = 0") (simp_all add: signed_divide_int_def)

text \<open>
  C7. \<^verbatim>\<open>setRequestXRequestStart\<close> sets \<^verbatim>\<open>X-Request-Start\<close> to the decimal rendering of the
  clock reading's Unix time in milliseconds (\<^verbatim>\<open>UnixNano()/1e6\<close>) if and only if the header
  is absent from the request; when the header is present the request is left exactly as
  it is, so its value is never overwritten; no other header and no other field of the
  request is modified. For a clock reading from the epoch on that fits \<^verbatim>\<open>int64\<close>, the
  value is the reading in nanoseconds divided by one million.
\<close>

theorem C7_setRequestXRequestStart:
  "(Header req ''X-Request-Start'' = None \<longrightarrow>
      Header (setRequestXRequestStart t req) ''X-Request-Start''
        = Some [FormatInt (UnixNano t sdiv 1000000)])
   \<and> (Header req ''X-Request-Start'' \<noteq> None \<longrightarrow> setRequestXRequestStart t req = req)
   \<and> (\<forall>k. k \<noteq> ''X-Request-Start'' \<longrightarrow>
          Header (setRequestXRequestStart t req) k = Header req k)
   \<and> (setRequestXRequestStart t req)\<lparr>Header := Header req\<rparr> = req
   \<and> (0 \<le> t \<and> t < 2 ^ 63 \<longrightarrow> UnixNano t sdiv 1000000 = t div 1000000)"
proof -
  have absent: "Header req ''X-Request-Start'' = None \<Longrightarrow>
      Header (setRequestXRequestStart t req) ''X-Request-Start''
        = Some [FormatInt (UnixNano t sdiv 1000000)]"
    by (simp add: setRequestXRequestStart_def CanonicalHeaderKey_XRequestStart Header_Set_def)
  have present: "Header req ''X-Request-Start'' \<noteq> None \<Longrightarrow> setRequestXRequestStart t req = req"
    by (auto simp: setRequestXRequestStart_def CanonicalHeaderKey_XRequestStart)
  have others: "k \<noteq> ''X-Request-Start'' \<Longrightarrow>
      Header (setRequestXRequestStart t req) k = Header req k" for k
    by (simp add: setRequestXRequestStart_def CanonicalHeaderKey_XRequestStart Header_Set_def
        split: option.splits)
  have frame: "(setRequestXRequestStart t req)\<lparr>Header := Header req\<rparr> = req"
    by (simp add: setRequestXRequestStart_def split: option.splits)
  have millis: "0 \<le> t \<Longrightarrow> t < 2 ^ 63 \<Longrightarrow> UnixNano t sdiv 1000000 = t div 1000000"
    by (simp add: UnixNano_in_range sdiv_nonneg)
  from absent present others frame millis show ?thesis
    by blast
qed

text \<open>
  C7 at the example request (header absent: it is set to the clock's milliseconds, and
  \<^verbatim>\<open>User-Agent\<close> is kept) and at a request that already carries the header (unchanged).
\<close>

theorem C7_setRequestXRequestStart_witness:
  "Header (setRequestXRequestStart (now example_world) example_request) ''X-Request-Start''
     = Some [''1700000000123'']
   \<and> Header (setRequestXRequestStart (now example_world) example_request) ''User-Agent''
     = Some [''curl'']
   \<and> setRequestXRequestStart (now example_world)
        (example_request\<lparr>Header := [''X-Request-Start'' \<mapsto> [''1500000000000'']]\<rparr>)
     = example_request\<lparr>Header := [''X-Request-Start'' \<mapsto> [''1500000000000'']]\<rparr>"
  using C7_setRequestXRequestStart [of example_request "now example_world"]
    C7_setRequestXRequestStart
      [of "example_request\<lparr>Header := [''X-Request-Start'' \<mapsto> [''1500000000000'']]\<rparr>"
          "now example_world"]
  by (simp add: example_request_def example_world_def FormatInt_def formatNat_small formatNat_big
      digitChar_def digits_def)

subsection \<open>The director strips X-CF-App-Instance\<close>

lemma setupProxyRequest_returns:
  assumes "Context (request w) = Some p"
  shows "\<exists>w'. setupProxyRequest w = Inr w'"
  using assms by (simp add: setupProxyRequest_def ContextRequestInfo_def Let_def)

lemma setupProxyRequest_Header:
  assumes "setupProxyRequest w = Inr w'"
  shows "Header (request w')
           = Header_Del (Header (setRequestXRequestStart (now w) (request w))) CfAppInstance"
  using assms
  by (auto simp: setupProxyRequest_def ContextRequestInfo_def Let_def setRequestXRequestStart_def
      split: option.splits sum.splits)

text \<open>
  C8. For every request with its RequestInfo attached, the director returns and the
  outgoing request carries no \<^verbatim>\<open>X-CF-App-Instance\<close> header (the map has no entry under
  the canonical name and \<^verbatim>\<open>Header.Get\<close> returns the empty string). Without a RequestInfo
  the director panics and no request goes out.
\<close>

theorem C8_director_strips_CfAppInstance:
  "(Context (request w) \<noteq> None \<longrightarrow>
      (\<exists>w'. setupProxyRequest w = Inr w'
           \<and> Header (request w') ''X-Cf-App-Instance'' = None
           \<and> Header_Get (Header (request w')) CfAppInstance = []))
   \<and> (Context (request w) = None \<longrightarrow>
      setupProxyRequest w = Inl (LoggerPanic ''request-info-err'', w))"
proof (cases "Context (request w)")
  case None
  then show ?thesis
    by (simp add: setupProxyRequest_def ContextRequestInfo_def)
next
  case (Some p)
  then obtain w' where ret: "setupProxyRequest w = Inr w'"
    using setupProxyRequest_returns by blast
  have gone: "Header (request w') ''X-Cf-App-Instance'' = None"
    by (simp add: setupProxyRequest_Header [OF ret] Header_Del_def CanonicalHeaderKey_CfAppInstance)
  then have "Header_Get (Header (request w')) CfAppInstance = []"
    by (simp add: Header_Get_def CanonicalHeaderKey_CfAppInstance)
  with Some ret gone show ?thesis
    by simp
qed

text \<open>
  C8 at the example request, which arrives with \<^verbatim>\<open>X-Cf-App-Instance: guid:0\<close>.
\<close>

theorem C8_director_strips_CfAppInstance_witness:
  "Header (request example_world) ''X-Cf-App-Instance'' = Some [''guid:0'']
   \<and> (\<exists>w'. setupProxyRequest example_world = Inr w'
           \<and> Header (request w') ''X-Cf-App-Instance'' = None
           \<and> Header_Get (Header (request w')) CfAppInstance = [])"
  using C8_director_strips_CfAppInstance [of example_world]
  by (simp add: example_world_def example_request_def)

subsection \<open>The panic guard\<close>

text \<open>
  C3. When the downstream handler panics with \<^verbatim>\<open>http.ErrAbortHandler\<close>, the panic guard
  panics with that same value again; when it panics with any other value, the guard
  recovers and returns, having set the health to Degraded, called \<^verbatim>\<open>WriteHeader(503)\<close> (which fixes the
  status 503 unless a status had been written before the panic) and marked the request's
  connection for close. When the downstream handler returns, so does the guard.
\<close>

theorem C3_panicCheck:
  "(next w = Inl (ErrAbortHandler, w1) \<longrightarrow>
      panicCheck_ServeHTTP next w = Inl (ErrAbortHandler, w1))
   \<and> (next w = Inl (v, w1) \<and> v \<noteq> ErrAbortHandler \<longrightarrow>
      (\<exists>w'. panicCheck_ServeHTTP next w = Inr w'
           \<and> health w' = Degraded
           \<and> writer w' = WriteHeader (writer w1) 503
           \<and> (\<not> wroteHeader (writer w1) \<longrightarrow> status (writer w') = 503)
           \<and> Close (request w')))
   \<and> (next w = Inr w1 \<longrightarrow> panicCheck_ServeHTTP next w = Inr w1)"
proof -
  have reraised: "panicCheck_ServeHTTP next w = Inl (ErrAbortHandler, w1)"
    if "next w = Inl (ErrAbortHandler, w1)"
    using that by (simp add: panicCheck_ServeHTTP_def recover_def)
  have recovered: "panicCheck_ServeHTTP next w
      = Inr (w1\<lparr>health := Degraded,
                writer := WriteHeader (writer w1) StatusServiceUnavailable,
                request := (request w1)\<lparr>Close := True\<rparr>\<rparr>)"
    if "next w = Inl (v, w1)" and "v \<noteq> ErrAbortHandler"
    using that
    by (cases v) (simp_all add: panicCheck_ServeHTTP_def recover_def SetHealth_def Let_def)
  have returned: "panicCheck_ServeHTTP next w = Inr w1" if "next w = Inr w1"
    using that by (simp add: panicCheck_ServeHTTP_def recover_def)
  have effects: "health w' = Degraded \<and> writer w' = WriteHeader (writer w1) 503
      \<and> (\<not> wroteHeader (writer w1) \<longrightarrow> status (writer w') = 503) \<and> Close (request w')"
    if "w' = w1\<lparr>health := Degraded,
                   writer := WriteHeader (writer w1) StatusServiceUnavailable,
                   request := (request w1)\<lparr>Close := True\<rparr>\<rparr>" for w'
    using that by (simp add: WriteHeader_def StatusServiceUnavailable_def)
  from reraised recovered returned effects show ?thesis
    by blast
qed

text \<open>
  C3 at a downstream handler that panics with the sentinel, and at one that panics with
  another value before anything was written.
\<close>

theorem C3_panicCheck_witness:
  "panicCheck_ServeHTTP (panicking_next ErrAbortHandler) example_world
     = Inl (ErrAbortHandler, example_world)
   \<and> (\<exists>w'. panicCheck_ServeHTTP (panicking_next (OtherPanic ''nil map'')) example_world = Inr w'
           \<and> health w' = Degraded
           \<and> status (writer w') = 503
           \<and> Close (request w'))"
proof -
  have fresh: "\<not> wroteHeader (writer example_world)"
    by (simp add: example_world_def fresh_writer_def)
  have abort: "panicking_next ErrAbortHandler example_world = Inl (ErrAbortHandler, example_world)"
    by (simp add: panicking_next_def)
  have other: "panicking_next (OtherPanic ''nil map'') example_world
                 = Inl (OtherPanic ''nil map'', example_world)"
    by (simp add: panicking_next_def)
  have reraised: "panicCheck_ServeHTTP (panicking_next ErrAbortHandler) example_world
                    = Inl (ErrAbortHandler, example_world)"
    using C3_panicCheck [of "panicking_next ErrAbortHandler" example_world example_world] abort
    by blast
  have recovered: "\<exists>w'. panicCheck_ServeHTTP (panicking_next (OtherPanic ''nil map'')) example_world
                          = Inr w'
           \<and> health w' = Degraded \<and> status (writer w') = 503 \<and> Close (request w')"
    using C3_panicCheck [of "panicking_next (OtherPanic ''nil map'')" example_world example_world
        "OtherPanic ''nil map''"] other fresh
    by auto
  from reraised recovered show ?thesis
    by blast
qed

subsection \<open>The final pipeline stage\<close>

text \<open>
  C4. When the RequestInfo is attached and its RoutePool is not nil (and the two panics
  before them do not occur: the writer is a ProxyResponseWriter and full duplex, where
  asked for, is supported), and the rest of the chain returns, then \<^verbatim>\<open>proxy.ServeHTTP\<close>
  returns with \<open>AppRequestStartedAt\<close> set to the clock reading on entry and
  \<open>AppRequestFinishedAt\<close> set to the clock reading after the rest of the chain, and
  \<open>AppRequestStartedAt \<le> AppRequestFinishedAt\<close>. The rest of the chain is any handler that
  leaves \<open>AppRequestStartedAt\<close> as it found it and during which the clock does not run
  backwards (\<^verbatim>\<open>time.Now\<close> carries a monotonic reading).
\<close>

theorem C4_proxy_ServeHTTP_timestamps:
  assumes attached: "Context (request w) \<noteq> None"
    and pool: "RoutePool (reqInfo w) \<noteq> None"
    and pw: "isProxyResponseWriter (writer w)"
    and duplex: "\<not> (EnableHTTP1ConcurrentReadWrite config \<and> ProtoMajor (request w) = 1
                    \<and> fullDuplexUnsupported (writer w))"
    and returns: "next (w\<lparr>reqInfo := (reqInfo w)\<lparr>AppRequestStartedAt := now w\<rparr>\<rparr>) = Inr w2"
    and clock: "now w \<le> now w2"
    and untouched: "AppRequestStartedAt (reqInfo w2) = now w"
  shows "\<exists>w'. proxy_ServeHTTP config next w = Inr w'
           \<and> AppRequestStartedAt (reqInfo w') = now w
           \<and> AppRequestFinishedAt (reqInfo w') = now w2
           \<and> AppRequestStartedAt (reqInfo w') \<le> AppRequestFinishedAt (reqInfo w')"
proof -
  from attached obtain p where ctx: "ContextRequestInfo (request w) = Inr p"
    by (auto simp: ContextRequestInfo_def)
  have "proxy_ServeHTTP config next w
          = Inr (w2\<lparr>reqInfo := (reqInfo w2)\<lparr>AppRequestFinishedAt := now w2\<rparr>\<rparr>)"
    using pool pw duplex returns ctx
    by (simp add: proxy_ServeHTTP_def Let_def)
  with clock untouched show ?thesis
    by simp
qed

text \<open>
  C4 at the example world, with a downstream chain that takes five milliseconds.
\<close>

theorem C4_proxy_ServeHTTP_timestamps_witness:
  "\<exists>w'. proxy_ServeHTTP example_config example_next example_world = Inr w'
        \<and> AppRequestStartedAt (reqInfo w') = 1700000000123456789
        \<and> AppRequestFinishedAt (reqInfo w') = 1700000000128456789
        \<and> AppRequestStartedAt (reqInfo w') \<le> AppRequestFinishedAt (reqInfo w')"
proof -
  have "next_w2": "example_next
          (example_world\<lparr>reqInfo := (reqInfo example_world)
             \<lparr>AppRequestStartedAt := now example_world\<rparr>\<rparr>)
        = Inr (example_world
            \<lparr>reqInfo := (reqInfo example_world)
               \<lparr>AppRequestStartedAt := now example_world,
                RouteEndpoint := Some (Endpoint ''10.0.0.1'' 8080)\<rparr>,
             writer := Write (WriteHeader (writer example_world) StatusOK) ''hello'',
             now := now example_world + 5 * Millisecond\<rparr>)"
    by (simp add: example_next_def)
  show ?thesis
    using C4_proxy_ServeHTTP_timestamps [of example_world example_config example_next, OF _ _ _ _ next_w2]
    by (simp add: example_world_def example_request_def example_reqInfo_def fresh_writer_def
        Millisecond_def)
qed

subsection \<open>The reporter handler\<close>

text \<open>
  C9. When the rest of the chain returns, the reporter handler returns too and adds to
  the reporter's calls: nothing at all when no endpoint was selected
  (\<open>RouteEndpoint\<close> is nil); exactly one \<^verbatim>\<open>CaptureRoutingResponse\<close> when an endpoint was
  selected and \<open>AppRequestFinishedAt\<close> is the zero time; that call followed by one
  \<^verbatim>\<open>CaptureRoutingResponseLatency\<close> when an endpoint was selected and
  \<open>AppRequestFinishedAt\<close> is not the zero time. (With an endpoint selected the writer must
  be a ProxyResponseWriter, or the type assertion panics.)
\<close>

theorem C9_reporter_metrics:
  assumes attached: "Context (request w) \<noteq> None"
    and returns: "next (if Header_Get (Header (request w)) ''Content-Length'' = []
                        then report CaptureMissingContentLengthHeader w else w) = Inr w2"
    and pw: "RouteEndpoint (reqInfo w2) \<noteq> None \<longrightarrow> isProxyResponseWriter (writer w)"
  shows "\<exists>w'. reporter_ServeHTTP next w = Inr w'
           \<and> (RouteEndpoint (reqInfo w2) = None \<longrightarrow> w' = w2)
           \<and> (\<forall>ep. RouteEndpoint (reqInfo w2) = Some ep
                    \<and> AppRequestFinishedAt (reqInfo w2) = zeroTime \<longrightarrow>
                  reported w' = reported w2 @ [CaptureRoutingResponse (status (writer w2))])
           \<and> (\<forall>ep. RouteEndpoint (reqInfo w2) = Some ep
                    \<and> AppRequestFinishedAt (reqInfo w2) \<noteq> zeroTime \<longrightarrow>
                  reported w' = reported w2 @
                    [CaptureRoutingResponse (status (writer w2)),
                     CaptureRoutingResponseLatency ep (status (writer w2))
                       (ReceivedAt (reqInfo w2))
                       (Sub (AppRequestFinishedAt (reqInfo w2)) (ReceivedAt (reqInfo w2)))])"
proof -
  from attached obtain p where ctx: "ContextRequestInfo (request w) = Inr p"
    by (auto simp: ContextRequestInfo_def)
  show ?thesis
  proof (cases "RouteEndpoint (reqInfo w2)")
    case None
    then have "reporter_ServeHTTP next w = Inr w2"
      using ctx returns by (simp add: reporter_ServeHTTP_def Let_def)
    with None show ?thesis
      by simp
  next
    case (Some ep)
    with pw have asserted: "isProxyResponseWriter (writer w)"
      by simp
    show ?thesis
    proof (cases "AppRequestFinishedAt (reqInfo w2) = zeroTime")
      case True
      then have "reporter_ServeHTTP next w
                   = Inr (report (CaptureRoutingResponse (status (writer w2))) w2)"
        using ctx returns Some asserted
        by (simp add: reporter_ServeHTTP_def Let_def report_def)
      with Some True show ?thesis
        by (simp add: report_def)
    next
      case False
      then have "reporter_ServeHTTP next w
                   = Inr (report
                            (CaptureRoutingResponseLatency ep (status (writer w2))
                               (ReceivedAt (reqInfo w2))
                               (Sub (AppRequestFinishedAt (reqInfo w2)) (ReceivedAt (reqInfo w2))))
                            (report (CaptureRoutingResponse (status (writer w2))) w2))"
        using ctx returns Some asserted
        by (simp add: reporter_ServeHTTP_def Let_def report_def)
      with Some False show ?thesis
        by (simp add: report_def)
    qed
  qed
qed

text \<open>
  C9 at the example world with three downstream chains: the final stage in front of a
  backend (response and latency are captured), the backend alone, which never sets
  \<open>AppRequestFinishedAt\<close> (only the response is captured), and a chain that selects no
  endpoint (neither is captured).
\<close>

theorem C9_reporter_metrics_witness:
  "(\<exists>w'. reporter_ServeHTTP (proxy_ServeHTTP example_config example_next) example_world = Inr w'
        \<and> reported w' =
            [CaptureMissingContentLengthHeader,
             CaptureRoutingResponse 200,
             CaptureRoutingResponseLatency (Endpoint ''10.0.0.1'' 8080) 200 1700000000000000000
               128456789])
   \<and> (\<exists>w'. reporter_ServeHTTP example_next example_world = Inr w'
        \<and> reported w' = [CaptureMissingContentLengthHeader, CaptureRoutingResponse 200])
   \<and> (\<exists>w'. reporter_ServeHTTP Inr example_world = Inr w'
        \<and> reported w' = [CaptureMissingContentLengthHeader])"
proof -
  let ?w1 = "report CaptureMissingContentLengthHeader example_world"
  have nolen: "Header_Get (Header (request example_world)) ''Content-Length'' = []"
    by (simp add: Header_Get_def CanonicalHeaderKey_ContentLength example_world_def
        example_request_def)
  have attached: "Context (request example_world) \<noteq> None"
    by (simp add: example_world_def example_request_def)
  have pw: "isProxyResponseWriter (writer example_world)"
    by (simp add: example_world_def fresh_writer_def)
  define wa where "wa = ?w1
      \<lparr>reqInfo := (reqInfo ?w1)
         \<lparr>AppRequestStartedAt := now ?w1,
          RouteEndpoint := Some (Endpoint ''10.0.0.1'' 8080),
          AppRequestFinishedAt := now ?w1 + 5 * Millisecond\<rparr>,
       writer := Write (WriteHeader (writer ?w1) StatusOK) ''hello'',
       now := now ?w1 + 5 * Millisecond\<rparr>"
  have full: "proxy_ServeHTTP example_config example_next ?w1 = Inr wa"
    by (simp add: proxy_ServeHTTP_def example_next_def ContextRequestInfo_def Let_def wa_def
        report_def example_world_def example_request_def example_reqInfo_def fresh_writer_def)
  define wb where "wb = ?w1
      \<lparr>reqInfo := (reqInfo ?w1)\<lparr>RouteEndpoint := Some (Endpoint ''10.0.0.1'' 8080)\<rparr>,
       writer := Write (WriteHeader (writer ?w1) StatusOK) ''hello'',
       now := now ?w1 + 5 * Millisecond\<rparr>"
  have bare: "example_next ?w1 = Inr wb"
    by (simp add: example_next_def wb_def)
  have none: "Inr ?w1 = (Inr ?w1 :: (PanicValue \<times> World) + World)"
    by simp
  have first: "\<exists>w'. reporter_ServeHTTP (proxy_ServeHTTP example_config example_next) example_world
                       = Inr w'
        \<and> reported w' =
            [CaptureMissingContentLengthHeader,
             CaptureRoutingResponse 200,
             CaptureRoutingResponseLatency (Endpoint ''10.0.0.1'' 8080) 200 1700000000000000000
               128456789]"
    using C9_reporter_metrics
      [of example_world "proxy_ServeHTTP example_config example_next" wa] attached pw full nolen
    by (simp add: wa_def report_def example_world_def example_reqInfo_def fresh_writer_def
        WriteHeader_def Write_def StatusOK_def Millisecond_def zeroTime_def Sub_def)
  have second: "\<exists>w'. reporter_ServeHTTP example_next example_world = Inr w'
        \<and> reported w' = [CaptureMissingContentLengthHeader, CaptureRoutingResponse 200]"
    using C9_reporter_metrics [of example_world example_next wb] attached pw bare nolen
    by (simp add: wb_def report_def example_world_def example_reqInfo_def fresh_writer_def
        WriteHeader_def Write_def StatusOK_def)
  have third: "\<exists>w'. reporter_ServeHTTP Inr example_world = Inr w'
        \<and> reported w' = [CaptureMissingContentLengthHeader]"
    using C9_reporter_metrics [of example_world Inr ?w1] attached nolen
    by (simp add: report_def example_world_def example_reqInfo_def)
  from first second third show ?thesis
    by blast
qed

subsection \<open>Splitting, joining and escaping a path\<close>

lemma parseQuery_empty: "parseQuery m [] = m"
  by (subst parseQuery.simps) simp

lemma TrimSuffix_append: "TrimSuffix (s @ suf) suf = s"
  by (simp add: TrimSuffix_def)

lemma Split_nonempty: "Split s sep \<noteq> []"
  by (induction s) (auto split: list.splits)

lemma Split_no_sep: "p \<in> set (Split s sep) \<Longrightarrow> sep \<notin> set p"
proof (induction s arbitrary: p)
  case Nil
  then show ?case by simp
next
  case (Cons c cs)
  then show ?case
    by (cases "Split cs sep") (auto split: if_splits)
qed

lemma Split_subset: "p \<in> set (Split s sep) \<Longrightarrow> set p \<subseteq> set s"
proof (induction s arbitrary: p)
  case Nil
  then show ?case by simp
next
  case (Cons c cs)
  show ?case
  proof (cases "c = sep")
    case True
    with Cons.prems have "p = [] \<or> p \<in> set (Split cs sep)"
      by simp
    with Cons.IH show ?thesis
      by auto
  next
    case False
    obtain a rest where split: "Split cs sep = a # rest"
      using Split_nonempty [of cs sep] by (cases "Split cs sep") auto
    with False Cons.prems have "p = c # a \<or> p \<in> set rest"
      by simp
    moreover have "set a \<subseteq> set cs"
      using Cons.IH [of a] split by simp
    moreover have "q \<in> set rest \<Longrightarrow> set q \<subseteq> set cs" for q
      using Cons.IH [of q] split by simp
    ultimately show ?thesis
      by auto
  qed
qed

lemma joinWith_Cons: "ps \<noteq> [] \<Longrightarrow> joinWith sep (p # ps) = p @ sep @ joinWith sep ps"
  by (cases ps) simp_all

lemma joinWith_Split: "joinWith [sep] (Split s sep) = s"
proof (induction s)
  case Nil
  then show ?case by simp
next
  case (Cons c cs)
  show ?case
  proof (cases "c = sep")
    case True
    with Cons show ?thesis
      by (simp add: joinWith_Cons Split_nonempty)
  next
    case False
    obtain p ps where split: "Split cs sep = p # ps"
      using Split_nonempty [of cs sep] by (cases "Split cs sep") auto
    with Cons False show ?thesis
      by (cases ps) simp_all
  qed
qed

lemma Split_joinWith:
  "ps \<noteq> [] \<Longrightarrow> \<forall>p\<in>set ps. sep \<notin> set p \<Longrightarrow> Split (joinWith [sep] ps) sep = ps"
proof (induction ps)
  case Nil
  then show ?case by simp
next
  case (Cons p ps)
  have head: "sep \<notin> set p"
    using Cons.prems by simp
  show ?case
  proof (cases "ps = []")
    case True
    from head have "Split p sep = [p]"
      by (induction p) auto
    with True show ?thesis by simp
  next
    case False
    with Cons have IH: "Split (joinWith [sep] ps) sep = ps"
      by simp
    from head have "Split (p @ sep # rest) sep = p # Split rest sep" for rest
      by (induction p) auto
    with IH False show ?thesis
      by (simp add: joinWith_Cons)
  qed
qed

lemma foldl_append_parts:
  "foldl (\<lambda>acc part. acc @ f part @ sep) a ps = a @ concat (map (\<lambda>part. f part @ sep) ps)"
  by (induction ps arbitrary: a) simp_all

lemma concat_parts_joinWith:
  "ps \<noteq> [] \<Longrightarrow> concat (map (\<lambda>part. f part @ sep) ps) = joinWith sep (map f ps) @ sep"
proof (induction ps)
  case Nil
  then show ?case by simp
next
  case (Cons p ps)
  then show ?case
    by (cases "ps = []") (simp_all add: joinWith_Cons)
qed

lemma escapePathAndPreserveSlashes_joinWith:
  "escapePathAndPreserveSlashes unescaped
     = joinWith ''/'' (map PathEscape (Split unescaped CHR ''/''))"
  by (simp add: escapePathAndPreserveSlashes_def Let_def foldl_append_parts
      concat_parts_joinWith Split_nonempty TrimSuffix_append)

lemma escape_unchanged: "\<forall>c\<in>set s. \<not> shouldEscape c mode \<Longrightarrow> escape s mode = s"
  by (induction s) (simp_all add: escape_def)

lemma all_but_separator:
  "\<forall>c\<in>A. c = z \<or> \<not> P c \<Longrightarrow> z \<notin> B \<Longrightarrow> B \<subseteq> A \<Longrightarrow> \<forall>c\<in>B. \<not> P c"
  by auto

lemma differs_from_escaped: "\<not> P c \<Longrightarrow> P z \<Longrightarrow> c \<noteq> z"
  by auto

lemma escapePathAndPreserveSlashes_unchanged:
  assumes safe: "\<forall>c\<in>set unescaped. c = CHR ''/'' \<or> \<not> shouldEscape c encodePathSegment"
  shows "escapePathAndPreserveSlashes unescaped = unescaped"
proof -
  have "PathEscape part = part" if part: "part \<in> set (Split unescaped CHR ''/'')" for part
  proof -
    have "\<forall>c\<in>set part. \<not> shouldEscape c encodePathSegment"
      using safe Split_no_sep [OF part] Split_subset [OF part] by (rule all_but_separator)
    then show ?thesis
      by (simp add: PathEscape_def escape_unchanged)
  qed
  then have "map PathEscape (Split unescaped CHR ''/'') = Split unescaped CHR ''/''"
    by (simp add: map_idI)
  then show ?thesis
    using joinWith_Split [of "CHR ''/''" unescaped]
    by (simp add: escapePathAndPreserveSlashes_joinWith)
qed

lemma upperhex_no_slash: "i < 16 \<Longrightarrow> upperhex ! i \<noteq> CHR ''/''"
proof -
  assume "i < 16"
  then have "i < length upperhex"
    by (simp add: upperhex_def)
  then have "upperhex ! i \<in> set upperhex"
    by (rule nth_mem)
  then show ?thesis
    by (auto simp: upperhex_def)
qed

lemma of_char_div_16: "(of_char c :: nat) div 16 < 16"
proof -
  have "(of_char c :: nat) < 256"
    by simp
  then show ?thesis
    by presburger
qed

lemma not_in_three: "a \<noteq> z \<Longrightarrow> b \<noteq> z \<Longrightarrow> c \<noteq> z \<Longrightarrow> z \<notin> set [a, b, c]"
  by auto

lemma not_in_concat_map: "(\<And>c. z \<notin> set (f c)) \<Longrightarrow> z \<notin> set (concat (map f s))"
  by (induction s) auto

lemma escapeByte_no_slash: "CHR ''/'' \<notin> set (escapeByte c)"
proof -
  have "(of_char c :: nat) mod 16 < 16"
    by simp
  then have low: "upperhex ! (of_char c mod 16) \<noteq> CHR ''/''"
    by (rule upperhex_no_slash)
  have high: "upperhex ! (of_char c div 16) \<noteq> CHR ''/''"
    by (rule upperhex_no_slash) (rule of_char_div_16)
  have percent: "CHR ''%'' \<noteq> CHR ''/''"
    by simp
  show ?thesis
    unfolding escapeByte_def by (rule not_in_three [OF percent high low])
qed

lemma shouldEscape_slash: "shouldEscape CHR ''/'' encodePathSegment"
  by (simp add: shouldEscape_def isAlnum_def)

lemma PathEscape_no_slash: "CHR ''/'' \<notin> set (PathEscape part)"
  unfolding PathEscape_def escape_def
proof (rule not_in_concat_map)
  fix c
  show "CHR ''/'' \<notin> set (if shouldEscape c encodePathSegment
                            then (if c = CHR '' '' \<and> encodePathSegment = encodeQueryComponent
                                  then ''+'' else escapeByte c)
                            else [c])"
  proof (cases "shouldEscape c encodePathSegment")
    case True
    then show ?thesis
      by (simp add: escapeByte_no_slash)
  next
    case False
    from False shouldEscape_slash have "c \<noteq> CHR ''/''"
      by (rule differs_from_escaped)
    with False show ?thesis
      by simp
  qed
qed

text \<open>
  The escaped path has the segments of the unescaped one, each path-escaped: no slash is
  added, dropped or merged.
\<close>

lemma Split_escapePathAndPreserveSlashes:
  "Split (escapePathAndPreserveSlashes unescaped) CHR ''/''
     = map PathEscape (Split unescaped CHR ''/'')"
  unfolding escapePathAndPreserveSlashes_joinWith
  by (rule Split_joinWith) (simp_all add: Split_nonempty PathEscape_no_slash)

subsection \<open>The director rewrites the URL\<close>

lemma Query_no_RawQuery: "RawQuery u = [] \<Longrightarrow> Query u = []"
  by (simp add: Query_def parseQuery_empty)

lemma setupProxyRequest_URL:
  assumes "Context (request w) = Some p"
  shows "\<exists>w'. setupProxyRequest w = Inr w'
           \<and> URL (request w')
             = (URL (request w))
                 \<lparr>Scheme := ''http'', URLHost := Host (request w), ForceQuery := False,
                  Opaque :=
                    (if HasPrefix (RequestURI (request w)) ''//''
                     then ''//'' @ Host (request w)
                          @ escapePathAndPreserveSlashes (Path (URL (request w)))
                          @ (if Query (URL (request w)) = [] then []
                             else ''?'' @ Encode (Query (URL (request w))))
                     else RequestURI (request w)),
                  RawQuery := []\<rparr>"
  using assms
  by (simp add: setupProxyRequest_def ContextRequestInfo_def Let_def setRequestXRequestStart_def
      Query_def split: option.splits)

text \<open>
  C2 (as amended). For every request with its RequestInfo attached the director returns
  with the URL's scheme \<^verbatim>\<open>http\<close>, \<open>RawQuery\<close> empty and \<open>ForceQuery\<close> off. When
  \<open>RequestURI\<close> does not begin with \<^verbatim>\<open>//\<close>, \<open>Opaque\<close> is \<open>RequestURI\<close> byte for byte. When
  it does, \<open>Opaque\<close> is \<^verbatim>\<open>//\<close>, the host and the URL's path with every slash kept and
  each segment between slashes path-escaped, followed by \<^verbatim>\<open>?\<close> and the re-encoded query
  when the query has a pair; so a path that begins with \<^verbatim>\<open>//\<close>, needs no escaping and has
  no query is forwarded unchanged after \<^verbatim>\<open>//\<close> and the host.
\<close>

theorem C2_director_url:
  assumes attached: "Context (request w) \<noteq> None"
  shows "\<exists>w'. setupProxyRequest w = Inr w'
           \<and> Scheme (URL (request w')) = ''http''
           \<and> RawQuery (URL (request w')) = [] \<and> \<not> ForceQuery (URL (request w'))
           \<and> (\<not> HasPrefix (RequestURI (request w)) ''//'' \<longrightarrow>
                 Opaque (URL (request w')) = RequestURI (request w))
           \<and> (HasPrefix (RequestURI (request w)) ''//'' \<longrightarrow>
                 Opaque (URL (request w'))
                   = ''//'' @ Host (request w)
                     @ joinWith ''/'' (map PathEscape (Split (Path (URL (request w))) CHR ''/''))
                     @ (if Query (URL (request w)) = [] then []
                        else ''?'' @ Encode (Query (URL (request w)))))
           \<and> (HasPrefix (RequestURI (request w)) ''//''
                \<and> (\<forall>c\<in>set (Path (URL (request w))).
                       c = CHR ''/'' \<or> \<not> shouldEscape c encodePathSegment)
                \<and> RawQuery (URL (request w)) = [] \<longrightarrow>
                 Opaque (URL (request w')) = ''//'' @ Host (request w) @ Path (URL (request w)))"
proof -
  from attached obtain p where "Context (request w) = Some p"
    by auto
  then obtain w' where ret: "setupProxyRequest w = Inr w'"
    and url: "URL (request w')
             = (URL (request w))
                 \<lparr>Scheme := ''http'', URLHost := Host (request w), ForceQuery := False,
                  Opaque :=
                    (if HasPrefix (RequestURI (request w)) ''//''
                     then ''//'' @ Host (request w)
                          @ escapePathAndPreserveSlashes (Path (URL (request w)))
                          @ (if Query (URL (request w)) = [] then []
                             else ''?'' @ Encode (Query (URL (request w))))
                     else RequestURI (request w)),
                  RawQuery := []\<rparr>"
    using setupProxyRequest_URL by blast
  have scheme: "Scheme (URL (request w')) = ''http''"
    and query: "RawQuery (URL (request w')) = []" "\<not> ForceQuery (URL (request w'))"
    by (simp_all add: url)
  have plain: "Opaque (URL (request w')) = RequestURI (request w)"
    if "\<not> HasPrefix (RequestURI (request w)) ''//''"
    using that by (simp add: url)
  have slashes: "Opaque (URL (request w'))
                   = ''//'' @ Host (request w)
                     @ joinWith ''/'' (map PathEscape (Split (Path (URL (request w))) CHR ''/''))
                     @ (if Query (URL (request w)) = [] then []
                        else ''?'' @ Encode (Query (URL (request w))))"
    if "HasPrefix (RequestURI (request w)) ''//''"
    using that by (simp add: url escapePathAndPreserveSlashes_joinWith)
  have kept: "Opaque (URL (request w')) = ''//'' @ Host (request w) @ Path (URL (request w))"
    if "HasPrefix (RequestURI (request w)) ''//''"
      and "\<forall>c\<in>set (Path (URL (request w))). c = CHR ''/'' \<or> \<not> shouldEscape c encodePathSegment"
      and "RawQuery (URL (request w)) = []"
    using that
    by (simp add: url escapePathAndPreserveSlashes_unchanged Query_no_RawQuery)
  from ret scheme query plain slashes kept show ?thesis
    by blast
qed

text \<open>
  C2 at the example request \<^verbatim>\<open>/x\<close> (the request line is kept) and at the request
  \<^verbatim>\<open>//foo/bar\<close> (the double slash is kept, after \<^verbatim>\<open>//\<close> and the host).
\<close>

theorem C2_director_url_witness:
  "(\<exists>w'. setupProxyRequest example_world = Inr w'
        \<and> Scheme (URL (request w')) = ''http''
        \<and> Opaque (URL (request w')) = ''/x'')
   \<and> (\<exists>w'. setupProxyRequest (example_world\<lparr>request := example_request
              \<lparr>RequestURI := ''//foo/bar'',
               URL := (URL example_request)\<lparr>Path := ''//foo/bar''\<rparr>\<rparr>\<rparr>) = Inr w'
        \<and> Scheme (URL (request w')) = ''http''
        \<and> Opaque (URL (request w')) = ''//a.app//foo/bar'')"
proof -
  let ?w = "example_world\<lparr>request := example_request
              \<lparr>RequestURI := ''//foo/bar'',
               URL := (URL example_request)\<lparr>Path := ''//foo/bar''\<rparr>\<rparr>\<rparr>"
  have safe: "\<forall>c\<in>set ''//foo/bar''. c = CHR ''/'' \<or> \<not> shouldEscape c encodePathSegment"
    by (simp add: shouldEscape_def isAlnum_def)
  have plain: "\<exists>w'. setupProxyRequest example_world = Inr w'
        \<and> Scheme (URL (request w')) = ''http''
        \<and> Opaque (URL (request w')) = ''/x''"
    using C2_director_url [of example_world]
    by (auto simp: example_world_def example_request_def HasPrefix_def)
  have double: "\<exists>w'. setupProxyRequest ?w = Inr w'
        \<and> Scheme (URL (request w')) = ''http''
        \<and> Opaque (URL (request w')) = ''//a.app//foo/bar''"
    using C2_director_url [of ?w] safe
    by (auto simp: example_request_def HasPrefix_def)
  from plain double show ?thesis
    by blast
qed

lemma escapePathAndPreserveSlashes_example:
  "escapePathAndPreserveSlashes ''//foo!bar'' = ''//foo%21bar''"
  by code_simp

text \<open>
  C2 as stated (the request line is preserved byte for byte in \<open>Opaque\<close>, for every
  request) fails for the request line \<^verbatim>\<open>//foo!bar\<close> on host \<^verbatim>\<open>a.app\<close>: the director
  returns with \<open>Opaque\<close> equal to \<^verbatim>\<open>//a.app//foo%21bar\<close>, which is not the request line
  and does not contain it.
\<close>

theorem C2_opaque_counterexample:
  "\<not> isl (setupProxyRequest double_slash_world)
   \<and> RequestURI (request double_slash_world) = ''//foo!bar''
   \<and> Opaque (URL (request (projr (setupProxyRequest double_slash_world))))
       = ''//a.app//foo%21bar''
   \<and> Opaque (URL (request (projr (setupProxyRequest double_slash_world))))
       \<noteq> RequestURI (request double_slash_world)"
  by (simp add: setupProxyRequest_def ContextRequestInfo_def Let_def setRequestXRequestStart_def
      double_slash_world_def example_world_def example_request_def HasPrefix_def
      escapePathAndPreserveSlashes_example Query_def parseQuery_empty
      split: option.splits)

end
